theory Spec2Isabelle
  imports Main "HOL-Library.Word"
begin

section \<open>The in-memory key-value store of internal/store/memory/memory.go\<close>

text \<open>
  The store maps keys to entries that are either a scalar string or a list of
  strings, with an optional absolute expiration instant. The operations are
  embedded sequentially: each takes the store and returns the updated store
  together with its result. The reader-writer lock, the cancellation context
  and the background sweep goroutine are not part of the embedding.
\<close>

subsection \<open>Errors\<close>

text \<open>The five sentinel errors declared at the top of memory.go.\<close>

datatype error =
    ErrKeyNotFound
  | ErrTypeMismatch
  | ErrInvalidTTL
  | ErrEmptyList
  | ErrMarshalFailed

subsection \<open>Time\<close>

text \<open>
  A \<open>time.Time\<close> is an instant; it is represented by the number of nanoseconds
  since the zero instant of Go's \<open>time\<close> package, so the zero \<open>Time\<close> (the
  value of an uninitialised \<open>time.Time\<close> variable) is 0. A \<open>time.Duration\<close> is
  an \<open>int64\<close> count of nanoseconds, and Go's \<open>int\<close> is 64 bits wide on the
  platform the repository's benchmarks document (darwin/arm64) as on every
  other 64-bit platform; arithmetic on both wraps around. Each call of
  \<open>time.Now()\<close> in the source is an explicit argument of the embedded
  operation, and the clock does not go backwards: a later reading is never
  before an earlier one.
\<close>

type_synonym Time = int
type_synonym Duration = "64 word"

definition Second :: Duration where
  "Second = 1000000000"

definition IsZero :: "Time \<Rightarrow> bool" where
  "IsZero t \<longleftrightarrow> t = 0"

definition Before :: "Time \<Rightarrow> Time \<Rightarrow> bool" where
  "Before t u \<longleftrightarrow> t < u"

definition After :: "Time \<Rightarrow> Time \<Rightarrow> bool" where
  "After t u \<longleftrightarrow> u < t"

definition Add :: "Time \<Rightarrow> Duration \<Rightarrow> Time" where
  "Add t d = t + sint d"

subsection \<open>Entries and the store\<close>

text \<open>
  Modelled from the spec: the declaration of the struct \<open>Value\<close> is not among
  the sources. Its fields are the ones memory.go reads and writes: \<open>Val\<close> (the
  spec's scalarValue), \<open>TTL\<close> (the spec's expiresAt, zero meaning that the
  entry never expires), \<open>IsList\<close> (the spec's kind) and \<open>List\<close> (the spec's
  listValue, front at index 0).
\<close>

record Value =
  Val :: string
  TTL :: Time
  IsList :: bool
  List :: "string list"

text \<open>The zero \<open>Value\<close>, which a Go map lookup yields for an absent key.\<close>

definition zero_Value :: Value where
  "zero_Value = \<lparr>Val = [], TTL = 0, IsList = False, List = []\<rparr>"

text \<open>The field \<open>data\<close> of \<open>MemoryStore\<close>.\<close>

record MemoryStore =
  data :: "string \<rightharpoonup> Value"

text \<open>\<open>delete(s.data, key)\<close>\<close>

definition delete :: "MemoryStore \<Rightarrow> string \<Rightarrow> MemoryStore" where
  "delete s key = s\<lparr>data := (data s)(key := None)\<rparr>"

subsection \<open>Stringify\<close>

text \<open>
  A value of Go's type \<open>any\<close> is either a string or something else. What
  \<open>json.Marshal\<close> does with the other values is a parameter \<open>marshal\<close> of the
  embedding: \<open>None\<close> when it returns an error, otherwise the bytes it returns.
\<close>

datatype 'a any = AnyString string | AnyOther 'a

fun Stringify :: "('a \<Rightarrow> string option) \<Rightarrow> 'a any \<Rightarrow> string option" where
  "Stringify marshal (AnyString val) = Some val"
| "Stringify marshal (AnyOther val) =
     (case marshal val of None \<Rightarrow> None | Some b \<Rightarrow> Some b)"

text \<open>
  For concrete runs: three kinds of Go values and what \<open>json.Marshal\<close> returns
  for them. \<open>nil\<close> is encoded as \<open>null\<close>, a boolean as \<open>true\<close> or \<open>false\<close>, and a
  channel is rejected with an unsupported-type error.
\<close>

datatype go_value = GoNil | GoBool bool | GoChan

fun json_Marshal :: "go_value \<Rightarrow> string option" where
  "json_Marshal GoNil = Some ''null''"
| "json_Marshal (GoBool b) = Some (if b then ''true'' else ''false'')"
| "json_Marshal GoChan = None"

subsection \<open>Operations\<close>

definition Set :: "('a \<Rightarrow> string option) \<Rightarrow> Time \<Rightarrow> MemoryStore \<Rightarrow> string \<Rightarrow> 'a any \<Rightarrow> 64 word
    \<Rightarrow> error option \<times> MemoryStore" where
  "Set marshal now s key val ttlSeconds =
     (if sint ttlSeconds < 0 then (Some ErrInvalidTTL, s)
      else case Stringify marshal val of
        None \<Rightarrow> (Some ErrMarshalFailed, s)
      | Some stringValue \<Rightarrow>
          let ttl = (if 0 < sint ttlSeconds then Add now (ttlSeconds * Second) else 0)
          in (None, s\<lparr>data := (data s)(key \<mapsto>
                \<lparr>Val = stringValue, TTL = ttl, IsList = False, List = []\<rparr>)\<rparr>))"

text \<open>
  \<open>Get\<close> reads the clock twice: \<open>now1\<close> on the path taken under the read lock,
  \<open>now2\<close> after the entry has been fetched again under the write lock.
\<close>

definition Get :: "Time \<Rightarrow> Time \<Rightarrow> MemoryStore \<Rightarrow> string \<Rightarrow> (error + string) \<times> MemoryStore" where
  "Get now1 now2 s key =
     (case data s key of
        None \<Rightarrow> (Inl ErrKeyNotFound, s)
      | Some v \<Rightarrow>
          if IsZero (TTL v) \<or> Before now1 (TTL v) then
            (if IsList v then (Inl ErrTypeMismatch, s) else (Inr (Val v), s))
          else
            (case data s key of
               None \<Rightarrow> (Inl ErrKeyNotFound, s)
             | Some v \<Rightarrow>
                 if \<not> IsZero (TTL v) \<and> After now2 (TTL v) then (Inl ErrKeyNotFound, delete s key)
                 else if IsList v then (Inl ErrTypeMismatch, s)
                 else (Inr (Val v), s)))"

definition Update :: "('a \<Rightarrow> string option) \<Rightarrow> Time \<Rightarrow> MemoryStore \<Rightarrow> string \<Rightarrow> 'a any
    \<Rightarrow> error option \<times> MemoryStore" where
  "Update marshal now s key val =
     (case Stringify marshal val of
        None \<Rightarrow> (Some ErrMarshalFailed, s)
      | Some stringValue \<Rightarrow>
          (case data s key of
             None \<Rightarrow> (Some ErrKeyNotFound, s)
           | Some v \<Rightarrow>
               if \<not> IsZero (TTL v) \<and> After now (TTL v) then (Some ErrKeyNotFound, delete s key)
               else if IsList v then (Some ErrTypeMismatch, s)
               else (None, s\<lparr>data := (data s)(key \<mapsto> v\<lparr>Val := stringValue\<rparr>)\<rparr>)))"

definition Remove :: "MemoryStore \<Rightarrow> string \<Rightarrow> error option \<times> MemoryStore" where
  "Remove s key =
     (case data s key of
        None \<Rightarrow> (Some ErrKeyNotFound, s)
      | Some _ \<Rightarrow> (None, delete s key))"

text \<open>
  \<open>Push\<close> reads the clock in the condition that decides whether a new list is
  created (\<open>now1\<close>) and again in the condition that guards the deletion of the
  expired entry (\<open>now2\<close>).
\<close>

definition Push :: "('a \<Rightarrow> string option) \<Rightarrow> Time \<Rightarrow> Time \<Rightarrow> MemoryStore \<Rightarrow> string \<Rightarrow> 'a any
    \<Rightarrow> error option \<times> MemoryStore" where
  "Push marshal now1 now2 s key item =
     (case Stringify marshal item of
        None \<Rightarrow> (Some ErrMarshalFailed, s)
      | Some stringItem \<Rightarrow>
          let v = (case data s key of None \<Rightarrow> zero_Value | Some w \<Rightarrow> w);
              exists = (data s key \<noteq> None);
              (s1, v1) =
                (if \<not> exists \<or> (\<not> IsZero (TTL v) \<and> After now1 (TTL v)) then
                   ((if exists \<and> (\<not> IsZero (TTL v) \<and> After now2 (TTL v)) then delete s key else s),
                    \<lparr>Val = [], TTL = 0, IsList = True, List = []\<rparr>)
                 else (s, v))
          in if \<not> IsList v1 then (Some ErrTypeMismatch, s1)
             else (None, s1\<lparr>data := (data s1)(key \<mapsto> v1\<lparr>List := stringItem # List v1\<rparr>)\<rparr>))"

definition Pop :: "Time \<Rightarrow> MemoryStore \<Rightarrow> string \<Rightarrow> (error + string) \<times> MemoryStore" where
  "Pop now s key =
     (case data s key of
        None \<Rightarrow> (Inl ErrKeyNotFound, s)
      | Some v \<Rightarrow>
          if \<not> IsZero (TTL v) \<and> After now (TTL v) then (Inl ErrKeyNotFound, delete s key)
          else if \<not> IsList v then (Inl ErrTypeMismatch, s)
          else (case List v of
                  [] \<Rightarrow> (Inl ErrEmptyList, s)
                | item # rest \<Rightarrow> (Inr item, s\<lparr>data := (data s)(key \<mapsto> v\<lparr>List := rest\<rparr>)\<rparr>)))"

subsection \<open>Stores for concrete runs\<close>

text \<open>
  \<open>NewMemoryStore\<close> returns a store with an empty map. The two other stores
  hold one key \<open>k\<close>: a scalar entry that expires at the instant 5, and a list
  entry that never expires.
\<close>

definition NewMemoryStore :: MemoryStore where
  "NewMemoryStore = \<lparr>data = Map.empty\<rparr>"

definition scalar_store :: MemoryStore where
  "scalar_store = \<lparr>data = [''k'' \<mapsto> \<lparr>Val = ''v'', TTL = 5, IsList = False, List = []\<rparr>]\<rparr>"

definition list_store :: MemoryStore where
  "list_store = \<lparr>data = [''k'' \<mapsto> \<lparr>Val = [], TTL = 0, IsList = True, List = [''x'']\<rparr>]\<rparr>"

section \<open>Properties\<close>

lemmas time_defs = IsZero_def Before_def After_def Add_def Second_def

lemmas example_defs = NewMemoryStore_def scalar_store_def list_store_def

subsection \<open>What each operation returns\<close>

text \<open>
  The result of every operation, by the state of the key. An entry \<open>v\<close> is
  expired at the instant \<open>now\<close> when \<open>TTL v \<noteq> 0 \<and> TTL v < now\<close>, which is the
  source's \<open>!v.TTL.IsZero() && time.Now().After(v.TTL)\<close>.
\<close>

lemma data_delete: "data (delete s key) k = (if k = key then None else data s k)"
  by (simp add: delete_def)

lemma Get_absent: "data s key = None \<Longrightarrow> Get now1 now2 s key = (Inl ErrKeyNotFound, s)"
  by (simp add: Get_def)

lemma Get_present:
  "data s key = Some v \<Longrightarrow>
   Get now1 now2 s key =
     (if TTL v = 0 \<or> now1 < TTL v \<or> now2 \<le> TTL v
      then (if IsList v then Inl ErrTypeMismatch else Inr (Val v), s)
      else (Inl ErrKeyNotFound, delete s key))"
  by (auto simp: Get_def time_defs)

lemma Update_present:
  "data s key = Some v \<Longrightarrow> Stringify marshal val = Some sv \<Longrightarrow>
   Update marshal now s key val =
     (if TTL v \<noteq> 0 \<and> TTL v < now then (Some ErrKeyNotFound, delete s key)
      else if IsList v then (Some ErrTypeMismatch, s)
      else (None, s\<lparr>data := (data s)(key \<mapsto> v\<lparr>Val := sv\<rparr>)\<rparr>))"
  by (simp add: Update_def time_defs)

lemma Update_absent:
  "data s key = None \<Longrightarrow> Stringify marshal val = Some sv \<Longrightarrow>
   Update marshal now s key val = (Some ErrKeyNotFound, s)"
  by (simp add: Update_def)

lemma Update_unserializable:
  "Stringify marshal val = None \<Longrightarrow> Update marshal now s key val = (Some ErrMarshalFailed, s)"
  by (simp add: Update_def)

lemma Pop_absent: "data s key = None \<Longrightarrow> Pop now s key = (Inl ErrKeyNotFound, s)"
  by (simp add: Pop_def)

lemma Pop_present:
  "data s key = Some v \<Longrightarrow>
   Pop now s key =
     (if TTL v \<noteq> 0 \<and> TTL v < now then (Inl ErrKeyNotFound, delete s key)
      else if \<not> IsList v then (Inl ErrTypeMismatch, s)
      else case List v of
             [] \<Rightarrow> (Inl ErrEmptyList, s)
           | item # rest \<Rightarrow> (Inr item, s\<lparr>data := (data s)(key \<mapsto> v\<lparr>List := rest\<rparr>)\<rparr>))"
  by (simp add: Pop_def time_defs)

lemma Push_unserializable:
  "Stringify marshal item = None \<Longrightarrow> Push marshal now1 now2 s key item = (Some ErrMarshalFailed, s)"
  by (simp add: Push_def)

lemma Push_absent:
  "data s key = None \<Longrightarrow> Stringify marshal item = Some si \<Longrightarrow>
   Push marshal now1 now2 s key item =
     (None, s\<lparr>data := (data s)(key \<mapsto> \<lparr>Val = [], TTL = 0, IsList = True, List = [si]\<rparr>)\<rparr>)"
  by (simp add: Push_def)

lemma Push_present:
  "data s key = Some v \<Longrightarrow> Stringify marshal item = Some si \<Longrightarrow>
   Push marshal now1 now2 s key item =
     (if TTL v \<noteq> 0 \<and> TTL v < now1
      then (None, s\<lparr>data := (data s)(key \<mapsto> \<lparr>Val = [], TTL = 0, IsList = True, List = [si]\<rparr>)\<rparr>)
      else if \<not> IsList v then (Some ErrTypeMismatch, s)
      else (None, s\<lparr>data := (data s)(key \<mapsto> v\<lparr>List := si # List v\<rparr>)\<rparr>))"
  by (simp add: Push_def time_defs delete_def)

text \<open>
  The product \<open>time.Duration(ttlSeconds) * time.Second\<close> does not wrap around as
  long as \<open>ttlSeconds\<close> is at most 9223372036.
\<close>

lemma sint_seconds:
  "0 \<le> sint (t :: 64 word) \<Longrightarrow> sint t \<le> 9223372036 \<Longrightarrow> sint (t * Second) = sint t * 1000000000"
proof -
  assume a: "0 \<le> sint t" "sint t \<le> 9223372036"
  have s: "sint (1000000000 :: 64 word) = 1000000000" by simp
  have "sint (t * 1000000000) = signed_take_bit 63 (sint t * 1000000000)"
    by (simp add: sint_word_ariths s)
  also have "\<dots> = sint t * 1000000000"
    using a by (intro signed_take_bit_int_eq_self) auto
  finally show ?thesis by (simp add: Second_def)
qed

lemma Set_result:
  "Set marshal now s key val ttl =
     (if sint ttl < 0 then (Some ErrInvalidTTL, s)
      else case Stringify marshal val of
        None \<Rightarrow> (Some ErrMarshalFailed, s)
      | Some sv \<Rightarrow> (None, s\<lparr>data := (data s)(key \<mapsto>
          \<lparr>Val = sv, TTL = (if 0 < sint ttl then now + sint (ttl * Second) else 0),
           IsList = False, List = []\<rparr>)\<rparr>))"
  by (simp add: Set_def Add_def split: option.splits)

lemma Set_within_range:
  "Stringify marshal val = Some sv \<Longrightarrow> 0 < sint ttlSeconds \<Longrightarrow> sint ttlSeconds \<le> 9223372036 \<Longrightarrow>
   Set marshal now s key val ttlSeconds
     = (None, s\<lparr>data := (data s)(key \<mapsto>
          \<lparr>Val = sv, TTL = now + sint ttlSeconds * 1000000000, IsList = False, List = []\<rparr>)\<rparr>)"
  by (simp add: Set_result sint_seconds)

text \<open>The errors each operation can return, and the store it leaves behind.\<close>

lemma Set_failure:
  "fst (Set marshal now s key val ttl) \<in> {None, Some ErrInvalidTTL, Some ErrMarshalFailed}
   \<and> (fst (Set marshal now s key val ttl) \<noteq> None \<longrightarrow> snd (Set marshal now s key val ttl) = s)
   \<and> (\<not> sint ttl < 0 \<and> Stringify marshal val = None \<longrightarrow>
        Set marshal now s key val ttl = (Some ErrMarshalFailed, s))"
  by (simp add: Set_result split: option.splits)

lemma Get_failure:
  "fst (Get now1 now2 s key) \<in> range Inr \<union> {Inl ErrKeyNotFound, Inl ErrTypeMismatch}
   \<and> (\<forall>e. fst (Get now1 now2 s key) = Inl e \<longrightarrow>
         snd (Get now1 now2 s key) = s
         \<or> (e = ErrKeyNotFound \<and> snd (Get now1 now2 s key) = delete s key
            \<and> (\<exists>v. data s key = Some v \<and> TTL v \<noteq> 0 \<and> TTL v < now2)))
   \<and> (\<forall>x. fst (Get now1 now2 s key) = Inr x \<longrightarrow> snd (Get now1 now2 s key) = s)"
  by (cases "data s key") (auto simp: Get_absent Get_present)

lemma Update_failure:
  "fst (Update marshal now s key val)
     \<in> {None, Some ErrMarshalFailed, Some ErrKeyNotFound, Some ErrTypeMismatch}
   \<and> (Stringify marshal val = None \<longrightarrow> Update marshal now s key val = (Some ErrMarshalFailed, s))
   \<and> (fst (Update marshal now s key val) \<noteq> None \<longrightarrow>
         snd (Update marshal now s key val) = s
         \<or> (fst (Update marshal now s key val) = Some ErrKeyNotFound
            \<and> snd (Update marshal now s key val) = delete s key
            \<and> (\<exists>v. data s key = Some v \<and> TTL v \<noteq> 0 \<and> TTL v < now)))"
  by (cases "Stringify marshal val"; cases "data s key")
    (auto simp: Update_unserializable Update_absent Update_present)

lemma Remove_failure:
  "fst (Remove s key) \<in> {None, Some ErrKeyNotFound}
   \<and> (fst (Remove s key) \<noteq> None \<longrightarrow> snd (Remove s key) = s)"
  by (simp add: Remove_def split: option.splits)

lemma Push_failure:
  "fst (Push marshal now1 now2 s key item) \<in> {None, Some ErrMarshalFailed, Some ErrTypeMismatch}
   \<and> (Stringify marshal item = None \<longrightarrow>
        Push marshal now1 now2 s key item = (Some ErrMarshalFailed, s))
   \<and> (fst (Push marshal now1 now2 s key item) \<noteq> None \<longrightarrow>
        snd (Push marshal now1 now2 s key item) = s)"
  by (cases "Stringify marshal item"; cases "data s key")
    (auto simp: Push_unserializable Push_absent Push_present)

lemma Pop_failure:
  "fst (Pop now s key) \<in> range Inr \<union> {Inl ErrKeyNotFound, Inl ErrTypeMismatch, Inl ErrEmptyList}
   \<and> (\<forall>e. fst (Pop now s key) = Inl e \<longrightarrow>
         snd (Pop now s key) = s
         \<or> (e = ErrKeyNotFound \<and> snd (Pop now s key) = delete s key
            \<and> (\<exists>v. data s key = Some v \<and> TTL v \<noteq> 0 \<and> TTL v < now)))"
  by (cases "data s key") (auto simp: Pop_absent Pop_present split: list.splits)

subsection \<open>Expiration check (C1)\<close>

text \<open>
  C1. The expiration check is \<open>time.Now().After(v.TTL)\<close>: an entry is expired
  exactly when the current instant is strictly after its \<open>TTL\<close>, and an entry
  whose \<open>TTL\<close> is zero is always live. For a scalar entry \<open>v\<close> at \<open>key\<close>:
  \<^item> when \<open>TTL v = 0\<close>, \<open>Get\<close> returns \<open>Val v\<close> at every instant;
  \<^item> when the clock reads at or before \<open>TTL v\<close> (the boundary instant
    \<open>now = TTL v\<close> included; \<open>now2\<close> is the later of the two readings of
    \<open>Get\<close>), \<open>Get\<close> returns \<open>Val v\<close> and leaves the store as it is;
  \<^item> when the clock reads strictly after a non-zero \<open>TTL v\<close> (\<open>now1\<close> is the
    earlier reading), \<open>Get\<close> fails with \<open>ErrKeyNotFound\<close> and deletes the
    entry;
  \<^item> with both clock readings of \<open>Get\<close> at the same instant \<open>now\<close>, \<open>Get\<close> fails
    with \<open>ErrKeyNotFound\<close> exactly when \<open>TTL v \<noteq> 0 \<and> TTL v < now\<close>, and so does
    \<open>Update\<close> with a value that \<open>Stringify\<close> accepts.

  In particular, after \<open>Set\<close> at the instant \<open>now0\<close> with \<open>ttlSeconds > 0\<close> and a
  value that \<open>Stringify\<close> accepts, the key holds a scalar entry with the
  serialized value and \<open>TTL = expiresAt\<close>, where \<open>expiresAt\<close> is
  \<open>now0.Add(time.Duration(ttlSeconds) * time.Second)\<close>; \<open>Get\<close> returns the
  serialized value at every instant at or before \<open>expiresAt\<close>, and fails with
  \<open>ErrKeyNotFound\<close> at every instant strictly after it (\<open>expiresAt\<close> not being
  the zero instant).
\<close>

theorem expiry_is_strictly_after:
  "(\<forall>v. data s key = Some v \<and> \<not> IsList v \<longrightarrow>
      (TTL v = 0 \<longrightarrow> Get now1 now2 s key = (Inr (Val v), s))
    \<and> (now2 \<le> TTL v \<longrightarrow> Get now1 now2 s key = (Inr (Val v), s))
    \<and> (TTL v \<noteq> 0 \<and> TTL v < now1 \<and> now1 \<le> now2 \<longrightarrow>
          Get now1 now2 s key = (Inl ErrKeyNotFound, delete s key))
    \<and> (fst (Get now now s key) = Inl ErrKeyNotFound \<longleftrightarrow> TTL v \<noteq> 0 \<and> TTL v < now)
    \<and> (\<forall>sv. Stringify marshal val = Some sv \<longrightarrow>
          (fst (Update marshal now s key val) = Some ErrKeyNotFound \<longleftrightarrow> TTL v \<noteq> 0 \<and> TTL v < now)))
   \<and> (\<forall>sv. 0 < sint ttl \<and> Stringify marshal val = Some sv \<longrightarrow>
        (let s' = snd (Set marshal now0 s key val ttl); expiresAt = Add now0 (ttl * Second)
         in data s' key = Some \<lparr>Val = sv, TTL = expiresAt, IsList = False, List = []\<rparr>
          \<and> (now2 \<le> expiresAt \<longrightarrow> Get now1 now2 s' key = (Inr sv, s'))
          \<and> (expiresAt \<noteq> 0 \<and> expiresAt < now1 \<and> now1 \<le> now2 \<longrightarrow>
               Get now1 now2 s' key = (Inl ErrKeyNotFound, delete s' key))))"
proof (intro conjI allI impI)
  fix sv
  assume a: "0 < sint ttl \<and> Stringify marshal val = Some sv"
  define e where "e = Add now0 (ttl * Second)"
  define s' where "s' = snd (Set marshal now0 s key val ttl)"
  have d: "data s' key = Some \<lparr>Val = sv, TTL = e, IsList = False, List = []\<rparr>"
    using a by (simp add: s'_def e_def Set_result Add_def)
  have "data s' key = Some \<lparr>Val = sv, TTL = e, IsList = False, List = []\<rparr>
      \<and> (now2 \<le> e \<longrightarrow> Get now1 now2 s' key = (Inr sv, s'))
      \<and> (e \<noteq> 0 \<and> e < now1 \<and> now1 \<le> now2 \<longrightarrow>
            Get now1 now2 s' key = (Inl ErrKeyNotFound, delete s' key))"
    using d by (auto simp: Get_present [OF d])
  then show "let s' = snd (Set marshal now0 s key val ttl); expiresAt = Add now0 (ttl * Second)
         in data s' key = Some \<lparr>Val = sv, TTL = expiresAt, IsList = False, List = []\<rparr>
          \<and> (now2 \<le> expiresAt \<longrightarrow> Get now1 now2 s' key = (Inr sv, s'))
          \<and> (expiresAt \<noteq> 0 \<and> expiresAt < now1 \<and> now1 \<le> now2 \<longrightarrow>
               Get now1 now2 s' key = (Inl ErrKeyNotFound, delete s' key))"
    by (simp add: s'_def e_def Let_def)
qed (auto simp: Get_present Update_present)

theorem expiry_is_strictly_after_witness:
  "Get 5 5 scalar_store ''k''
     = (Inr ''v'', scalar_store)
   \<and> Get 6 7 scalar_store ''k''
     = (Inl ErrKeyNotFound, NewMemoryStore)
   \<and> fst (Get 6 6 scalar_store ''k'')
     = Inl ErrKeyNotFound
   \<and> fst (Update json_Marshal 6
        scalar_store ''k''
        (AnyOther (GoBool True))) = Some ErrKeyNotFound
   \<and> Add 5 (1 * Second) = 1000000005
   \<and> Get 1000000005 1000000005
        (snd (Set json_Marshal 5 NewMemoryStore ''k'' (AnyOther (GoBool True)) 1)) ''k''
     = (Inr ''true'', snd (Set json_Marshal 5 NewMemoryStore ''k'' (AnyOther (GoBool True)) 1))
   \<and> Get 1000000006 1000000007
        (snd (Set json_Marshal 5 NewMemoryStore ''k'' (AnyOther (GoBool True)) 1)) ''k''
     = (Inl ErrKeyNotFound, NewMemoryStore)"
  using expiry_is_strictly_after [where s = scalar_store
      and key = "''k''" and ?now1.0 = 5 and ?now2.0 = 5 and now = 6 and marshal = json_Marshal
      and val = "AnyOther (GoBool True)" and ttl = 1 and ?now0.0 = 5]
    expiry_is_strictly_after [where s = scalar_store
      and key = "''k''" and ?now1.0 = 6 and ?now2.0 = 7 and now = 6 and marshal = json_Marshal
      and val = "AnyOther (GoBool True)" and ttl = 1 and ?now0.0 = 5]
    expiry_is_strictly_after [where s = NewMemoryStore
      and key = "''k''" and ?now1.0 = 1000000005 and ?now2.0 = 1000000005 and now = 6
      and marshal = json_Marshal and val = "AnyOther (GoBool True)" and ttl = 1 and ?now0.0 = 5]
    expiry_is_strictly_after [where s = NewMemoryStore
      and key = "''k''" and ?now1.0 = 1000000006 and ?now2.0 = 1000000007 and now = 6
      and marshal = json_Marshal and val = "AnyOther (GoBool True)" and ttl = 1 and ?now0.0 = 5]
  by (simp add: example_defs Let_def delete_def Set_def time_defs)

text \<open>
  At the boundary instant \<open>now = expiresAt\<close> the key is still live: set at the
  instant 5 with a TTL of one second, it expires at 1000000005, where \<open>Get\<close>
  returns the value and \<open>Update\<close> succeeds.
\<close>

theorem expiry_at_boundary_counterexample:
  "fst (Get 1000000005 1000000005
          (snd (Set json_Marshal 5 NewMemoryStore ''k'' (AnyString ''v'') 1)) ''k'') = Inr ''v''
   \<and> fst (Update json_Marshal 1000000005
          (snd (Set json_Marshal 5 NewMemoryStore ''k'' (AnyString ''v'') 1)) ''k'' (AnyString ''w'')) = None"
  by (simp add: example_defs Set_def Get_def Update_def time_defs)

subsection \<open>Lazy expiration (C2)\<close>

text \<open>
  C2. For every key whose entry has a non-zero \<open>TTL\<close> in the past, \<open>Get\<close> and
  \<open>Pop\<close> fail with \<open>ErrKeyNotFound\<close> and delete the entry, and so does \<open>Update\<close>
  with a value that \<open>Stringify\<close> accepts, so the expired value is never
  returned. \<open>Update\<close> serializes before it looks at the key: with a value that
  \<open>Stringify\<close> rejects it fails with \<open>ErrMarshalFailed\<close> and leaves the store as
  it is. After the deletion the key is absent, and a second \<open>Get\<close>, \<open>Pop\<close> or
  \<open>Update\<close> (with a serializable value) at any instant fails with
  \<open>ErrKeyNotFound\<close> again. No sweep is involved.
\<close>

theorem lazy_expiration_no_resurrection:
  "(\<forall>v. data s key = Some v \<and> TTL v \<noteq> 0 \<and> TTL v < now1 \<and> now1 \<le> now2 \<longrightarrow>
      Get now1 now2 s key = (Inl ErrKeyNotFound, delete s key)
    \<and> Pop now1 s key = (Inl ErrKeyNotFound, delete s key)
    \<and> (\<forall>sv. Stringify marshal val = Some sv \<longrightarrow>
          Update marshal now1 s key val = (Some ErrKeyNotFound, delete s key))
    \<and> (Stringify marshal val = None \<longrightarrow>
          Update marshal now1 s key val = (Some ErrMarshalFailed, s)))
   \<and> data (delete s key) key = None
   \<and> Get t1 t2 (delete s key) key = (Inl ErrKeyNotFound, delete s key)
   \<and> Pop t1 (delete s key) key = (Inl ErrKeyNotFound, delete s key)
   \<and> (\<forall>sv. Stringify marshal val' = Some sv \<longrightarrow>
         Update marshal t1 (delete s key) key val' = (Some ErrKeyNotFound, delete s key))"
  by (auto simp: Get_present Pop_present Update_present Update_unserializable
      Get_absent Pop_absent Update_absent data_delete)

theorem lazy_expiration_no_resurrection_witness:
  "Get 6 7 scalar_store ''k'' = (Inl ErrKeyNotFound, NewMemoryStore)
   \<and> Pop 6 scalar_store ''k'' = (Inl ErrKeyNotFound, NewMemoryStore)
   \<and> Update json_Marshal 6 scalar_store ''k'' (AnyString ''w'') = (Some ErrKeyNotFound, NewMemoryStore)
   \<and> Get 8 9 NewMemoryStore ''k'' = (Inl ErrKeyNotFound, NewMemoryStore)
   \<and> Pop 8 NewMemoryStore ''k'' = (Inl ErrKeyNotFound, NewMemoryStore)
   \<and> Update json_Marshal 8 NewMemoryStore ''k'' (AnyOther GoNil) = (Some ErrKeyNotFound, NewMemoryStore)"
  using lazy_expiration_no_resurrection [where s = scalar_store and key = "''k''" and ?now1.0 = 6 and ?now2.0 = 7
      and marshal = json_Marshal and val = "AnyString ''w''" and ?t1.0 = 8 and ?t2.0 = 9
      and val' = "AnyOther GoNil"]
  by (simp add: example_defs delete_def)

text \<open>
  \<open>Update\<close> of an expired key with a channel as the value: the error is
  \<open>ErrMarshalFailed\<close>, not \<open>ErrKeyNotFound\<close>, and the expired entry stays in the
  map.
\<close>

theorem Update_expired_unserializable_counterexample:
  "Update json_Marshal 1000 scalar_store
      ''k'' (AnyOther GoChan)
   = (Some ErrMarshalFailed, scalar_store)"
  by (simp add: example_defs Update_def)

subsection \<open>Round trip (C3)\<close>

text \<open>
  C3. If \<open>Set key val ttlSeconds\<close> succeeds, then \<open>Stringify\<close> accepted the value
  with some result \<open>sv\<close>, the key holds a scalar entry with \<open>Val = sv\<close> and some
  \<open>TTL = e\<close>, and every \<open>Get\<close> before the expiry (\<open>e\<close> is zero, or the first
  clock reading is before \<open>e\<close>, or the second one is not after \<open>e\<close>) returns
  exactly \<open>sv\<close> and leaves the store as it is. \<open>Stringify\<close> is the identity on
  strings and \<open>json.Marshal\<close> on every other value.
\<close>

theorem Set_Get_round_trip:
  "fst (Set marshal now0 s key val ttl) = None \<longrightarrow>
     (\<exists>sv e. Stringify marshal val = Some sv
        \<and> data (snd (Set marshal now0 s key val ttl)) key
            = Some \<lparr>Val = sv, TTL = e, IsList = False, List = []\<rparr>
        \<and> (e = 0 \<or> now1 < e \<or> now2 \<le> e \<longrightarrow>
             Get now1 now2 (snd (Set marshal now0 s key val ttl)) key
               = (Inr sv, snd (Set marshal now0 s key val ttl))))
   \<and> Stringify marshal (AnyString str) = Some str
   \<and> Stringify marshal (AnyOther x) = marshal x"
proof (intro conjI impI)
  assume ok: "fst (Set marshal now0 s key val ttl) = None"
  then obtain sv where sv: "Stringify marshal val = Some sv" and ttl: "\<not> sint ttl < 0"
    by (auto simp: Set_result split: if_splits option.splits)
  define e where "e = (if 0 < sint ttl then now0 + sint (ttl * Second) else 0)"
  have d: "data (snd (Set marshal now0 s key val ttl)) key
            = Some \<lparr>Val = sv, TTL = e, IsList = False, List = []\<rparr>"
    using sv ttl by (simp add: Set_result e_def)
  show "\<exists>sv e. Stringify marshal val = Some sv
        \<and> data (snd (Set marshal now0 s key val ttl)) key
            = Some \<lparr>Val = sv, TTL = e, IsList = False, List = []\<rparr>
        \<and> (e = 0 \<or> now1 < e \<or> now2 \<le> e \<longrightarrow>
             Get now1 now2 (snd (Set marshal now0 s key val ttl)) key
               = (Inr sv, snd (Set marshal now0 s key val ttl)))"
    using sv d by (intro exI [of _ sv] exI [of _ e]) (simp add: Get_present [OF d])
qed (simp_all split: option.splits)

theorem Set_Get_round_trip_witness:
  "fst (Set json_Marshal 5 NewMemoryStore ''k'' (AnyOther GoNil) 2) = None
   \<and> Get 7 8 (snd (Set json_Marshal 5 NewMemoryStore ''k'' (AnyOther GoNil) 2)) ''k''
       = (Inr ''null'', snd (Set json_Marshal 5 NewMemoryStore ''k'' (AnyOther GoNil) 2))
   \<and> Stringify json_Marshal (AnyString ''x'') = Some ''x''"
  using Set_Get_round_trip [where marshal = json_Marshal and ?now0.0 = 5 and s = NewMemoryStore and key = "''k''"
      and val = "AnyOther GoNil" and ttl = 2 and ?now1.0 = 7 and ?now2.0 = 8 and str = "''x''"
      and x = GoNil]
  by (simp add: example_defs Set_def time_defs)

subsection \<open>LIFO order of lists (C4)\<close>

text \<open>
  C4. On a live list entry, a \<open>Push\<close> whose item \<open>Stringify\<close> accepts puts the
  serialized item at index 0, in front of the elements already there, and
  \<open>Pop\<close> removes and returns the element at index 0. So after \<open>Push a\<close>,
  \<open>Push b\<close>, \<open>Push c\<close> (strings, at any instants) the next three \<open>Pop\<close>s return
  \<open>c\<close>, \<open>b\<close>, \<open>a\<close>, and the fourth \<open>Pop\<close> finds the list as it was before the
  pushes: on a key that was absent, or held an empty list, it fails with
  \<open>ErrEmptyList\<close>.
\<close>

theorem Push_Pop_LIFO:
  "(\<forall>v si. data s key = Some v \<and> IsList v \<and> (TTL v = 0 \<or> now1 \<le> TTL v)
        \<and> Stringify marshal item = Some si \<longrightarrow>
      Push marshal now1 now2 s key item
        = (None, s\<lparr>data := (data s)(key \<mapsto> v\<lparr>List := si # List v\<rparr>)\<rparr>))
   \<and> (\<forall>v x xs. data s key = Some v \<and> IsList v \<and> (TTL v = 0 \<or> now1 \<le> TTL v)
        \<and> List v = x # xs \<longrightarrow>
      Pop now1 s key = (Inr x, s\<lparr>data := (data s)(key \<mapsto> v\<lparr>List := xs\<rparr>)\<rparr>))
   \<and> (\<forall>xs. data s key = None \<and> xs = []
          \<or> (\<exists>v. data s key = Some v \<and> IsList v \<and> TTL v = 0 \<and> List v = xs) \<longrightarrow>
       (let (e1, s1) = Push marshal t1 t1' s key (AnyString a);
            (e2, s2) = Push marshal t2 t2' s1 key (AnyString b);
            (e3, s3) = Push marshal t3 t3' s2 key (AnyString c);
            (r4, s4) = Pop t4 s3 key;
            (r5, s5) = Pop t5 s4 key;
            (r6, s6) = Pop t6 s5 key;
            (r7, s7) = Pop t7 s6 key
        in e1 = None \<and> e2 = None \<and> e3 = None
         \<and> r4 = Inr c \<and> r5 = Inr b \<and> r6 = Inr a
         \<and> r7 = (case xs of [] \<Rightarrow> Inl ErrEmptyList | x # _ \<Rightarrow> Inr x)))"
  by (auto simp: Push_present Pop_present Push_absent split: list.splits)

theorem Push_Pop_LIFO_witness:
  "Push json_Marshal 1 1 list_store ''k'' (AnyString ''y'')
     = (None, \<lparr>data = [''k'' \<mapsto> \<lparr>Val = [], TTL = 0, IsList = True, List = [''y'', ''x'']\<rparr>]\<rparr>)
   \<and> Pop 1 list_store ''k''
     = (Inr ''x'', \<lparr>data = [''k'' \<mapsto> \<lparr>Val = [], TTL = 0, IsList = True, List = []\<rparr>]\<rparr>)
   \<and> (let (e1, s1) = Push json_Marshal 1 1 NewMemoryStore ''k'' (AnyString ''a'');
            (e2, s2) = Push json_Marshal 2 2 s1 ''k'' (AnyString ''b'');
            (e3, s3) = Push json_Marshal 3 3 s2 ''k'' (AnyString ''c'');
            (r4, s4) = Pop 4 s3 ''k'';
            (r5, s5) = Pop 5 s4 ''k'';
            (r6, s6) = Pop 6 s5 ''k'';
            (r7, s7) = Pop 7 s6 ''k''
        in e1 = None \<and> e2 = None \<and> e3 = None
         \<and> r4 = Inr ''c'' \<and> r5 = Inr ''b'' \<and> r6 = Inr ''a'' \<and> r7 = Inl ErrEmptyList)"
  using Push_Pop_LIFO [where s = list_store and key = "''k''" and ?now1.0 = 1 and ?now2.0 = 1
      and marshal = json_Marshal and item = "AnyString ''y''"]
    Push_Pop_LIFO [where s = NewMemoryStore and key = "''k''" and marshal = json_Marshal
      and ?t1.0 = 1 and t1' = 1 and ?t2.0 = 2 and t2' = 2 and ?t3.0 = 3 and t3' = 3
      and ?t4.0 = 4 and ?t5.0 = 5 and ?t6.0 = 6 and ?t7.0 = 7
      and a = "''a''" and b = "''b''" and c = "''c''"]
  by (simp add: example_defs)

subsection \<open>Push on an absent or expired key (C5)\<close>

text \<open>
  C5. For an item that \<open>Stringify\<close> accepts, with result \<open>si\<close>:
  \<^item> on a key that is absent, or present with an expired entry of either kind,
    \<open>Push\<close> succeeds and the key then holds a new list entry with the single
    element \<open>si\<close> and a zero \<open>TTL\<close>: the expired entry is replaced, and a \<open>Pop\<close>
    at any later instant returns \<open>si\<close>, so the new entry never expires;
  \<^item> \<open>Push\<close> fails with \<open>ErrTypeMismatch\<close> exactly when the key holds a scalar
    entry that is not expired, and then the store is unchanged.

  For an item that \<open>Stringify\<close> rejects, \<open>Push\<close> fails with \<open>ErrMarshalFailed\<close>
  whatever the key holds, and the store is unchanged.
\<close>

theorem Push_on_absent_or_expired:
  "(\<forall>si. Stringify marshal item = Some si \<longrightarrow>
      (data s key = None \<or> (\<exists>v. data s key = Some v \<and> TTL v \<noteq> 0 \<and> TTL v < now1) \<longrightarrow>
         Push marshal now1 now2 s key item
           = (None, s\<lparr>data := (data s)(key \<mapsto> \<lparr>Val = [], TTL = 0, IsList = True, List = [si]\<rparr>)\<rparr>)
         \<and> (\<forall>t. fst (Pop t (snd (Push marshal now1 now2 s key item)) key) = Inr si))
    \<and> (fst (Push marshal now1 now2 s key item) = Some ErrTypeMismatch
         \<longleftrightarrow> (\<exists>v. data s key = Some v \<and> \<not> IsList v \<and> \<not> (TTL v \<noteq> 0 \<and> TTL v < now1)))
    \<and> (fst (Push marshal now1 now2 s key item) = Some ErrTypeMismatch
         \<longrightarrow> snd (Push marshal now1 now2 s key item) = s))
   \<and> (Stringify marshal item = None \<longrightarrow>
        Push marshal now1 now2 s key item = (Some ErrMarshalFailed, s))"
proof (intro conjI allI impI)
  fix si
  assume si: "Stringify marshal item = Some si"
  show "(fst (Push marshal now1 now2 s key item) = Some ErrTypeMismatch)
     = (\<exists>v. data s key = Some v \<and> \<not> IsList v \<and> \<not> (TTL v \<noteq> 0 \<and> TTL v < now1))"
    by (cases "data s key") (auto simp: Push_absent [OF _ si] Push_present [OF _ si])
  show "snd (Push marshal now1 now2 s key item) = s"
    if "fst (Push marshal now1 now2 s key item) = Some ErrTypeMismatch"
    using that
    by (cases "data s key") (auto simp: Push_absent [OF _ si] Push_present [OF _ si] split: if_splits)
  assume k: "data s key = None \<or> (\<exists>v. data s key = Some v \<and> TTL v \<noteq> 0 \<and> TTL v < now1)"
  show p: "Push marshal now1 now2 s key item
      = (None, s\<lparr>data := (data s)(key \<mapsto> \<lparr>Val = [], TTL = 0, IsList = True, List = [si]\<rparr>)\<rparr>)"
    using k by (auto simp: Push_absent [OF _ si] Push_present [OF _ si])
  show "fst (Pop t (snd (Push marshal now1 now2 s key item)) key) = Inr si" for t
    by (simp add: p Pop_present)
qed (simp add: Push_unserializable)

theorem Push_on_absent_or_expired_witness:
  "Push json_Marshal 1 2 NewMemoryStore ''k'' (AnyOther (GoBool True))
     = (None, \<lparr>data = [''k'' \<mapsto> \<lparr>Val = [], TTL = 0, IsList = True, List = [''true'']\<rparr>]\<rparr>)
   \<and> Push json_Marshal 6 7 scalar_store ''k'' (AnyOther (GoBool True))
     = (None, \<lparr>data = [''k'' \<mapsto> \<lparr>Val = [], TTL = 0, IsList = True, List = [''true'']\<rparr>]\<rparr>)
   \<and> fst (Push json_Marshal 5 5 scalar_store ''k'' (AnyOther (GoBool True))) = Some ErrTypeMismatch
   \<and> snd (Push json_Marshal 5 5 scalar_store ''k'' (AnyOther (GoBool True))) = scalar_store
   \<and> Push json_Marshal 1 2 NewMemoryStore ''k'' (AnyOther GoChan) = (Some ErrMarshalFailed, NewMemoryStore)"
  using Push_on_absent_or_expired [where marshal = json_Marshal and item = "AnyOther (GoBool True)"
      and s = NewMemoryStore and key = "''k''" and ?now1.0 = 1 and ?now2.0 = 2]
    Push_on_absent_or_expired [where marshal = json_Marshal and item = "AnyOther (GoBool True)"
      and s = scalar_store and key = "''k''" and ?now1.0 = 6 and ?now2.0 = 7]
    Push_on_absent_or_expired [where marshal = json_Marshal and item = "AnyOther (GoBool True)"
      and s = scalar_store and key = "''k''" and ?now1.0 = 5 and ?now2.0 = 5]
    Push_on_absent_or_expired [where marshal = json_Marshal and item = "AnyOther GoChan"
      and s = NewMemoryStore and key = "''k''" and ?now1.0 = 1 and ?now2.0 = 2]
  by (simp add: example_defs)

text \<open>
  \<open>Push\<close> of a channel on an absent key does not succeed: it fails with
  \<open>ErrMarshalFailed\<close> and creates no entry.
\<close>

theorem Push_unserializable_counterexample:
  "Push json_Marshal 1000 1000 NewMemoryStore ''k'' (AnyOther GoChan)
     = (Some ErrMarshalFailed, NewMemoryStore)"
  by (simp add: example_defs Push_def)

subsection \<open>Set and the TTL in seconds (C6)\<close>

text \<open>
  C6. \<open>Set\<close> computes the expiration instant as
  \<open>time.Now().Add(time.Duration(ttlSeconds) * time.Second)\<close>. The product is an
  \<open>int64\<close> and wraps around from \<open>ttlSeconds = 9223372037\<close> on: there the
  duration is \<open>-9223372036709551616\<close> nanoseconds, so the entry is stored with
  a \<open>TTL\<close> about 292 years before \<open>now\<close> instead of \<open>now + ttlSeconds\<close>, and a
  \<open>Get\<close> at the same instant already finds it expired.
\<close>

theorem Set_ttl_overflow:
  "Set marshal now s key (AnyString str) 9223372037
     = (None, s\<lparr>data := (data s)(key \<mapsto>
          \<lparr>Val = str, TTL = now - 9223372036709551616, IsList = False, List = []\<rparr>)\<rparr>)
   \<and> Set json_Marshal 63900000000000000000 NewMemoryStore ''k'' (AnyString ''v'') 9223372037
     = (None, \<lparr>data = [''k'' \<mapsto>
          \<lparr>Val = ''v'', TTL = 54676627963290448384, IsList = False, List = []\<rparr>]\<rparr>)
   \<and> Get 63900000000000000000 63900000000000000000
        (snd (Set json_Marshal 63900000000000000000 NewMemoryStore ''k'' (AnyString ''v'')
           9223372037)) ''k''
     = (Inl ErrKeyNotFound, NewMemoryStore)"
  by (simp add: example_defs Set_def Get_def time_defs delete_def)

subsection \<open>Update keeps the TTL (C7)\<close>

text \<open>
  C7. For a key holding a live scalar entry \<open>v\<close>, \<open>Update\<close> with a value that
  \<open>Stringify\<close> accepts succeeds. Whenever \<open>Update\<close> succeeds, the entry at the key
  is \<open>v\<close> with only \<open>Val\<close> replaced by the serialized value: \<open>TTL\<close>, \<open>IsList\<close>
  and \<open>List\<close> are unchanged, the entry of every other key is unchanged, and at
  all later clock readings \<open>Get\<close> reports the key expired on the updated store
  exactly when it does on the original one.
\<close>

theorem Update_preserves_TTL:
  "(\<forall>v. data s key = Some v \<and> \<not> IsList v \<and> (TTL v = 0 \<or> now \<le> TTL v) \<longrightarrow>
      (\<forall>sv. Stringify marshal val = Some sv \<longrightarrow>
         Update marshal now s key val = (None, s\<lparr>data := (data s)(key \<mapsto> v\<lparr>Val := sv\<rparr>)\<rparr>))
    \<and> (fst (Update marshal now s key val) = None \<longrightarrow>
         (\<exists>sv. Stringify marshal val = Some sv
            \<and> data (snd (Update marshal now s key val)) key = Some (v\<lparr>Val := sv\<rparr>))
       \<and> (\<forall>v'. data (snd (Update marshal now s key val)) key = Some v' \<longrightarrow>
             TTL v' = TTL v \<and> IsList v' = IsList v \<and> List v' = List v)
       \<and> (\<forall>k. k \<noteq> key \<longrightarrow> data (snd (Update marshal now s key val)) k = data s k)
       \<and> (\<forall>t1 t2. (fst (Get t1 t2 (snd (Update marshal now s key val)) key) = Inl ErrKeyNotFound)
                 = (fst (Get t1 t2 s key) = Inl ErrKeyNotFound))))"
proof (intro allI impI)
  fix v
  assume a: "data s key = Some v \<and> \<not> IsList v \<and> (TTL v = 0 \<or> now \<le> TTL v)"
  then have d: "data s key = Some v" by simp
  show "(\<forall>sv. Stringify marshal val = Some sv \<longrightarrow>
         Update marshal now s key val = (None, s\<lparr>data := (data s)(key \<mapsto> v\<lparr>Val := sv\<rparr>)\<rparr>))
    \<and> (fst (Update marshal now s key val) = None \<longrightarrow>
         (\<exists>sv. Stringify marshal val = Some sv
            \<and> data (snd (Update marshal now s key val)) key = Some (v\<lparr>Val := sv\<rparr>))
       \<and> (\<forall>v'. data (snd (Update marshal now s key val)) key = Some v' \<longrightarrow>
             TTL v' = TTL v \<and> IsList v' = IsList v \<and> List v' = List v)
       \<and> (\<forall>k. k \<noteq> key \<longrightarrow> data (snd (Update marshal now s key val)) k = data s k)
       \<and> (\<forall>t1 t2. (fst (Get t1 t2 (snd (Update marshal now s key val)) key) = Inl ErrKeyNotFound)
                 = (fst (Get t1 t2 s key) = Inl ErrKeyNotFound)))"
  proof (cases "Stringify marshal val")
    case None
    then show ?thesis by (simp add: Update_unserializable)
  next
    case (Some sv)
    have u: "Update marshal now s key val = (None, s\<lparr>data := (data s)(key \<mapsto> v\<lparr>Val := sv\<rparr>)\<rparr>)"
      using a by (auto simp: Update_present [OF d Some])
    have g: "(fst (Get t1 t2 (s\<lparr>data := (data s)(key \<mapsto> v\<lparr>Val := sv\<rparr>)\<rparr>) key) = Inl ErrKeyNotFound)
           = (fst (Get t1 t2 s key) = Inl ErrKeyNotFound)" for t1 t2
      by (simp add: Get_present [OF d] Get_present [of _ key "v\<lparr>Val := sv\<rparr>"])
    show ?thesis using Some g by (simp add: u)
  qed
qed

theorem Update_preserves_TTL_witness:
  "Update json_Marshal 5 scalar_store ''k'' (AnyString ''y'')
     = (None, \<lparr>data = [''k'' \<mapsto> \<lparr>Val = ''y'', TTL = 5, IsList = False, List = []\<rparr>]\<rparr>)
   \<and> fst (Update json_Marshal 5 scalar_store ''k'' (AnyString ''y'')) = None
   \<and> data (snd (Update json_Marshal 5 scalar_store ''k'' (AnyString ''y''))) ''k''
       = Some \<lparr>Val = ''y'', TTL = 5, IsList = False, List = []\<rparr>
   \<and> data (snd (Update json_Marshal 5 scalar_store ''k'' (AnyString ''y''))) ''j'' = None"
  using Update_preserves_TTL [where s = scalar_store and key = "''k''" and now = 5
      and marshal = json_Marshal and val = "AnyString ''y''"]
  by (simp add: example_defs)

subsection \<open>Errors and failure (C8)\<close>

text \<open>
  C8. Every operation succeeds or returns one of the five errors: \<open>Set\<close> only
  \<open>ErrInvalidTTL\<close> or \<open>ErrMarshalFailed\<close>; \<open>Get\<close> only \<open>ErrKeyNotFound\<close> or
  \<open>ErrTypeMismatch\<close>; \<open>Update\<close> only \<open>ErrMarshalFailed\<close>, \<open>ErrKeyNotFound\<close> or
  \<open>ErrTypeMismatch\<close>; \<open>Remove\<close> only \<open>ErrKeyNotFound\<close>; \<open>Push\<close> only
  \<open>ErrMarshalFailed\<close> or \<open>ErrTypeMismatch\<close>; \<open>Pop\<close> only \<open>ErrKeyNotFound\<close>,
  \<open>ErrTypeMismatch\<close> or \<open>ErrEmptyList\<close>. A failed operation creates and mutates
  no entry: a failed \<open>Set\<close>, \<open>Remove\<close> or \<open>Push\<close> leaves the store as it is, and
  a failed \<open>Get\<close>, \<open>Update\<close> or \<open>Pop\<close> leaves it as it is or, when the error is
  \<open>ErrKeyNotFound\<close> and the entry at the key was expired, with that expired
  entry deleted (a successful \<open>Get\<close> leaves the store as it is, too). When \<open>Stringify\<close> fails inside \<open>Set\<close> (reached when
  \<open>ttlSeconds\<close> is not negative), \<open>Update\<close> or \<open>Push\<close>, the operation returns
  \<open>ErrMarshalFailed\<close> and the store is unchanged.
\<close>

theorem failure_applies_no_effect:
  "(fst (Set marshal now s key val ttl) \<in> {None, Some ErrInvalidTTL, Some ErrMarshalFailed}
    \<and> (fst (Set marshal now s key val ttl) \<noteq> None \<longrightarrow> snd (Set marshal now s key val ttl) = s)
    \<and> (\<not> sint ttl < 0 \<and> Stringify marshal val = None \<longrightarrow>
         Set marshal now s key val ttl = (Some ErrMarshalFailed, s)))
   \<and> (fst (Get now1 now2 s key) \<in> range Inr \<union> {Inl ErrKeyNotFound, Inl ErrTypeMismatch}
    \<and> (\<forall>e. fst (Get now1 now2 s key) = Inl e \<longrightarrow>
         snd (Get now1 now2 s key) = s
         \<or> (e = ErrKeyNotFound \<and> snd (Get now1 now2 s key) = delete s key
            \<and> (\<exists>v. data s key = Some v \<and> TTL v \<noteq> 0 \<and> TTL v < now2)))
    \<and> (\<forall>x. fst (Get now1 now2 s key) = Inr x \<longrightarrow> snd (Get now1 now2 s key) = s))
   \<and> (fst (Update marshal now s key val)
         \<in> {None, Some ErrMarshalFailed, Some ErrKeyNotFound, Some ErrTypeMismatch}
    \<and> (Stringify marshal val = None \<longrightarrow> Update marshal now s key val = (Some ErrMarshalFailed, s))
    \<and> (fst (Update marshal now s key val) \<noteq> None \<longrightarrow>
         snd (Update marshal now s key val) = s
         \<or> (fst (Update marshal now s key val) = Some ErrKeyNotFound
            \<and> snd (Update marshal now s key val) = delete s key
            \<and> (\<exists>v. data s key = Some v \<and> TTL v \<noteq> 0 \<and> TTL v < now))))
   \<and> (fst (Remove s key) \<in> {None, Some ErrKeyNotFound}
    \<and> (fst (Remove s key) \<noteq> None \<longrightarrow> snd (Remove s key) = s))
   \<and> (fst (Push marshal now1 now2 s key val) \<in> {None, Some ErrMarshalFailed, Some ErrTypeMismatch}
    \<and> (Stringify marshal val = None \<longrightarrow>
         Push marshal now1 now2 s key val = (Some ErrMarshalFailed, s))
    \<and> (fst (Push marshal now1 now2 s key val) \<noteq> None \<longrightarrow>
         snd (Push marshal now1 now2 s key val) = s))
   \<and> (fst (Pop now s key) \<in> range Inr \<union> {Inl ErrKeyNotFound, Inl ErrTypeMismatch, Inl ErrEmptyList}
    \<and> (\<forall>e. fst (Pop now s key) = Inl e \<longrightarrow>
         snd (Pop now s key) = s
         \<or> (e = ErrKeyNotFound \<and> snd (Pop now s key) = delete s key
            \<and> (\<exists>v. data s key = Some v \<and> TTL v \<noteq> 0 \<and> TTL v < now))))"
  by (rule Set_failure Get_failure Update_failure Remove_failure Push_failure Pop_failure conjI)+

theorem failure_applies_no_effect_witness:
  "Set json_Marshal 5 scalar_store ''k'' (AnyOther GoChan) 1 = (Some ErrMarshalFailed, scalar_store)
   \<and> Update json_Marshal 5 scalar_store ''k'' (AnyOther GoChan) = (Some ErrMarshalFailed, scalar_store)
   \<and> Push json_Marshal 5 5 scalar_store ''k'' (AnyOther GoChan) = (Some ErrMarshalFailed, scalar_store)
   \<and> fst (Get 5 5 list_store ''k'') = Inl ErrTypeMismatch \<and> snd (Get 5 5 list_store ''k'') = list_store
   \<and> fst (Pop 5 scalar_store ''k'') = Inl ErrTypeMismatch \<and> snd (Pop 5 scalar_store ''k'') = scalar_store
   \<and> fst (Pop 6 scalar_store ''k'') = Inl ErrKeyNotFound \<and> snd (Pop 6 scalar_store ''k'') = NewMemoryStore
   \<and> fst (Remove NewMemoryStore ''k'') = Some ErrKeyNotFound
   \<and> snd (Remove NewMemoryStore ''k'') = NewMemoryStore"
  using failure_applies_no_effect [where marshal = json_Marshal and now = 5 and s = scalar_store
      and key = "''k''" and val = "AnyOther GoChan" and ttl = 1 and ?now1.0 = 5 and ?now2.0 = 5]
    failure_applies_no_effect [where marshal = json_Marshal and now = 6 and s = scalar_store
      and key = "''k''" and val = "AnyOther GoChan" and ttl = 1 and ?now1.0 = 6 and ?now2.0 = 6]
    failure_applies_no_effect [where marshal = json_Marshal and now = 5 and s = list_store
      and key = "''k''" and val = "AnyOther GoChan" and ttl = 1 and ?now1.0 = 5 and ?now2.0 = 5]
    failure_applies_no_effect [where marshal = json_Marshal and now = 5 and s = NewMemoryStore
      and key = "''k''" and val = "AnyOther GoChan" and ttl = 1 and ?now1.0 = 5 and ?now2.0 = 5]
  by (simp add: example_defs Get_def Pop_def Remove_def delete_def time_defs)

subsection \<open>Type isolation (C9)\<close>

text \<open>
  C9. For a key holding a live list entry, \<open>Get\<close> fails with
  \<open>ErrTypeMismatch\<close>, and \<open>Update\<close> does too when \<open>Stringify\<close> accepts its
  value. For a key holding a live scalar entry, \<open>Pop\<close> fails with
  \<open>ErrTypeMismatch\<close>, and \<open>Push\<close> does too when \<open>Stringify\<close> accepts its item;
  \<open>Pop\<close> checks the kind before the length, so a scalar entry (whose \<open>List\<close> is
  empty) gives \<open>ErrTypeMismatch\<close>, never \<open>ErrEmptyList\<close>. None of them changes
  the store. \<open>Update\<close> and \<open>Push\<close> serialize first: with a value that
  \<open>Stringify\<close> rejects they fail with \<open>ErrMarshalFailed\<close>, whatever the kind of
  the entry.
\<close>

theorem type_isolation:
  "(\<forall>v. data s key = Some v \<and> (TTL v = 0 \<or> now2 \<le> TTL v) \<and> now1 \<le> now2 \<longrightarrow>
      (IsList v \<longrightarrow>
         Get now1 now2 s key = (Inl ErrTypeMismatch, s)
       \<and> (\<forall>sv. Stringify marshal val = Some sv \<longrightarrow>
            Update marshal now1 s key val = (Some ErrTypeMismatch, s)))
    \<and> (\<not> IsList v \<longrightarrow>
         Pop now1 s key = (Inl ErrTypeMismatch, s)
       \<and> (\<forall>si. Stringify marshal val = Some si \<longrightarrow>
            Push marshal now1 now2 s key val = (Some ErrTypeMismatch, s)))
    \<and> (\<not> IsList v \<and> List v = [] \<longrightarrow> fst (Pop now1 s key) \<noteq> Inl ErrEmptyList))
   \<and> (Stringify marshal val = None \<longrightarrow>
         Update marshal now1 s key val = (Some ErrMarshalFailed, s)
       \<and> Push marshal now1 now2 s key val = (Some ErrMarshalFailed, s))"
  by (auto simp: Get_present Update_present Pop_present Push_present
      Update_unserializable Push_unserializable)

theorem type_isolation_witness:
  "Get 1 2 list_store ''k'' = (Inl ErrTypeMismatch, list_store)
   \<and> Update json_Marshal 1 list_store ''k'' (AnyString ''y'') = (Some ErrTypeMismatch, list_store)
   \<and> Pop 4 scalar_store ''k'' = (Inl ErrTypeMismatch, scalar_store)
   \<and> Push json_Marshal 4 5 scalar_store ''k'' (AnyString ''y'') = (Some ErrTypeMismatch, scalar_store)
   \<and> fst (Pop 4 scalar_store ''k'') \<noteq> Inl ErrEmptyList"
  using type_isolation [where s = list_store and key = "''k''" and ?now1.0 = 1 and ?now2.0 = 2
      and marshal = json_Marshal and val = "AnyString ''y''"]
    type_isolation [where s = scalar_store and key = "''k''" and ?now1.0 = 4 and ?now2.0 = 5
      and marshal = json_Marshal and val = "AnyString ''y''"]
  by (simp add: example_defs)

text \<open>
  \<open>Update\<close> of a live list entry with a channel as the value fails with
  \<open>ErrMarshalFailed\<close>, not with \<open>ErrTypeMismatch\<close>.
\<close>

theorem Update_list_unserializable_counterexample:
  "Update json_Marshal 1000
      \<lparr>data = [''k'' \<mapsto> \<lparr>Val = [], TTL = 0, IsList = True, List = [''a'']\<rparr>]\<rparr>
      ''k'' (AnyOther GoChan)
   = (Some ErrMarshalFailed,
      \<lparr>data = [''k'' \<mapsto> \<lparr>Val = [], TTL = 0, IsList = True, List = [''a'']\<rparr>]\<rparr>)"
  by (simp add: example_defs Update_def)

subsection \<open>Remove (C10)\<close>

text \<open>
  C10. \<open>Remove\<close> performs no expiration check: it fails with \<open>ErrKeyNotFound\<close>
  exactly when the key is absent from the map, and it succeeds and deletes the
  entry of every key that is present, also when that entry has a non-zero
  \<open>TTL\<close> in the past.
\<close>

theorem Remove_no_expiry_check:
  "(fst (Remove s key) = Some ErrKeyNotFound \<longleftrightarrow> data s key = None)
   \<and> (data s key = None \<longrightarrow> Remove s key = (Some ErrKeyNotFound, s))
   \<and> (\<forall>v. data s key = Some v \<longrightarrow> Remove s key = (None, delete s key))
   \<and> data (delete s key) key = None"
  by (auto simp: Remove_def delete_def split: option.splits)

theorem Remove_no_expiry_check_witness:
  "data scalar_store ''k''
     = Some \<lparr>Val = ''v'', TTL = 5, IsList = False, List = []\<rparr>
   \<and> TTL \<lparr>Val = ''v'', TTL = 5, IsList = False, List = []\<rparr> \<noteq> 0
   \<and> After 1000 (TTL \<lparr>Val = ''v'', TTL = 5, IsList = False, List = []\<rparr>)
   \<and> Remove scalar_store ''k''
     = (None, NewMemoryStore)"
  using Remove_no_expiry_check
    [of scalar_store "''k''"]
  by (simp add: example_defs delete_def After_def)

end
